theory Spec2Isabelle
  imports Complex_Main "HOL-Library.Multiset"
begin

section \<open>Python errors\<close>

text \<open>
  Every exception the embedded functions raise is a value of \<open>py_error\<close>; a function
  that may raise returns \<open>py_error + 'a\<close> with the error on the left.
  \<open>BadSettings\<close> (settings/exceptions.py) carries its message and its
  \<open>parameter\<close> attribute.
\<close>

datatype py_error =
    IndexError
  | TypeError
  | ValueError
  | OverflowError
  | KeyError string
  | AttributeError string
  | BadSettings string "string option"

definition raises :: "py_error + 'a \<Rightarrow> bool" where
  "raises r = (case r of Inl e \<Rightarrow> True | Inr v \<Rightarrow> False)"

section \<open>numpy arrays as the structure code uses them\<close>

text \<open>
  \<open>Structure._symbols\<close> is \<open>np.array\<close> of Python strings: a fixed-width unicode
  array (dtype \<open><U\<close>\<^emph>\<open>w\<close>), where \<^emph>\<open>w\<close> is the length of the longest string
  given at creation (at least 1). Storing a longer string into such an array keeps its
  first \<^emph>\<open>w\<close> characters only.
\<close>

record str_array =
  width :: nat
  items :: "string list"

definition np_array :: "string list \<Rightarrow> str_array" where
  "np_array xs = \<lparr>width = fold max (map length xs) 1, items = xs\<rparr>"

text \<open>
  A Python list of integers becomes an array of dtype int (int64) when every integer
  lies in the int64 range, and an array of another dtype (or an error, where the dtype
  is asked for) when one does not.
\<close>

definition int64 :: "int \<Rightarrow> bool" where
  "int64 i \<longleftrightarrow> - (2 ^ 63) \<le> i \<and> i < 2 ^ 63"

text \<open>
  Indexing with an integer array: an index \<open>i\<close> is accepted when \<open>-n \<le> i < n\<close> and a
  negative one counts from the end; any other index raises IndexError.
\<close>

definition in_bounds :: "nat \<Rightarrow> int \<Rightarrow> bool" where
  "in_bounds n i \<longleftrightarrow> - int n \<le> i \<and> i < int n"

definition position :: "nat \<Rightarrow> int \<Rightarrow> nat" where
  "position n i = nat (if i < 0 then i + int n else i)"

text \<open>\<open>arr[indices]\<close> (a read).\<close>

definition take_at :: "'a list \<Rightarrow> int list \<Rightarrow> py_error + 'a list" where
  "take_at xs idx =
     (if list_all (in_bounds (length xs)) idx
      then Inr (map (\<lambda>i. xs ! position (length xs) i) idx)
      else Inl IndexError)"

text \<open>
  \<open>arr[indices] = values\<close> with a Python list of strings as \<open>values\<close>: the list is
  first copied into an array of the shape of the indexing result (a list of one value
  is broadcast, any other length mismatch raises ValueError), then the indices are
  checked, then the values are stored one index after the other, so that the last
  store wins at a repeated index. Each stored string is cut to the array's width.
\<close>

definition broadcast :: "nat \<Rightarrow> 'a list \<Rightarrow> 'a list" where
  "broadcast n vs = (if length vs = n then vs else replicate n (hd vs))"

definition store :: "nat \<Rightarrow> nat \<Rightarrow> int \<times> string \<Rightarrow> string list \<Rightarrow> string list" where
  "store w n iv xs = xs[position n (fst iv) := take w (snd iv)]"

definition put_at :: "str_array \<Rightarrow> int list \<Rightarrow> string list \<Rightarrow> py_error + str_array" where
  "put_at a idx vs =
     (let n = length (items a) in
      if length vs \<noteq> length idx \<and> length vs \<noteq> 1 then Inl ValueError
      else if \<not> list_all (in_bounds n) idx then Inl IndexError
      else Inr (a\<lparr>items := fold (store (width a) n) (zip idx (broadcast (length idx) vs)) (items a)\<rparr>))"

text \<open>Indexing a Python list with one integer (\<open>xs[i]\<close>).\<close>

definition py_index :: "'a list \<Rightarrow> int \<Rightarrow> py_error + 'a" where
  "py_index xs i =
     (if in_bounds (length xs) i then Inr (xs ! position (length xs) i) else Inl IndexError)"

section \<open>Structure (core/structure.py)\<close>

text \<open>
  The Python class \<open>Structure\<close> extends the extension class
  \<open>sqsgenerator.core.core.Structure\<close>, which holds \<open>lattice\<close>, \<open>frac_coords\<close>,
  \<open>species\<close> (a list of \<open>Atom\<close>, each with \<open>symbol\<close> and \<open>Z\<close>) and \<open>pbc\<close>. The
  Python constructor adds \<open>_symbols\<close>, \<open>_numbers\<close> and \<open>_unique_species\<close>.
  Coordinates are floating-point numbers in the program and reals here; the embedded
  code only stores, reorders and compares them.
\<close>

record Atom =
  symbol :: string
  Z :: int

type_synonym vec3 = "real \<times> real \<times> real"

type_synonym pbc_flags = "bool \<times> bool \<times> bool"

record Structure =
  lattice :: "vec3 \<times> vec3 \<times> vec3"
  frac_coords :: "vec3 list"
  species :: "Atom list"
  pbc :: pbc_flags
  symbols :: str_array
  numbers :: "int list"
  unique_species :: "string set"

definition num_atoms :: "Structure \<Rightarrow> nat" where
  "num_atoms s = length (species s)"

definition default_pbc :: pbc_flags where
  "default_pbc = (True, True, True)"

text \<open>
  Modelled from the spec: the constructor of the extension class
  \<open>sqsgenerator.core.core.Structure\<close> is not among the sources. Section 3 of the
  spec gives its data model: every symbol has an atomic number \<open>Z\<close> (the table is the
  parameter \<open>Zof\<close>), and coordinates are canonicalized modulo 1 on every axis whose
  \<open>pbc\<close> flag is true.
\<close>

definition canonical :: "pbc_flags \<Rightarrow> vec3 \<Rightarrow> vec3" where
  "canonical p c =
     (case p of (pa, pb, pc) \<Rightarrow>
      case c of (x, y, z) \<Rightarrow>
        (if pa then frac x else x, if pb then frac y else y, if pc then frac z else z))"

definition atom_of :: "(string \<Rightarrow> int) \<Rightarrow> string \<Rightarrow> Atom" where
  "atom_of Zof x = \<lparr>symbol = x, Z = Zof x\<rparr>"

text \<open>
  \<open>Structure.__init__\<close> (lines 16 to 20): the extension constructor, then the three
  derived attributes.
\<close>

definition Structure_init ::
  "(string \<Rightarrow> int) \<Rightarrow> vec3 \<times> vec3 \<times> vec3 \<Rightarrow> vec3 list \<Rightarrow> string list \<Rightarrow> pbc_flags \<Rightarrow> Structure" where
  "Structure_init Zof l fc syms p =
     (let sp = map (atom_of Zof) syms in
      \<lparr>lattice = l, frac_coords = map (canonical p) fc, species = sp, pbc = p,
       symbols = np_array (map symbol sp),
       numbers = map Z sp,
       unique_species = set (map symbol sp)\<rparr>)"

text \<open>
  A record value that the constructor can have produced: building a structure again
  from its own fields gives the structure itself.
\<close>

definition constructed :: "(string \<Rightarrow> int) \<Rightarrow> Structure \<Rightarrow> bool" where
  "constructed Zof s \<longleftrightarrow>
     s = Structure_init Zof (lattice s) (frac_coords s) (map symbol (species s)) (pbc s)
     \<and> length (frac_coords s) = length (species s)"

text \<open>
  \<open>Structure.__getitem__\<close> (lines 83 to 100). \<open>Index i\<close> is an integer,
  \<open>IndexList\<close> a Python list or tuple of integers, \<open>MaskList\<close> one of booleans,
  \<open>IndexArray\<close> a numpy array of dtype int, \<open>Unsupported\<close> a value of any other
  type. An empty Python list becomes a float array, and a list with an integer outside
  the int64 range an array that is not of dtype int: line 93 refuses both with
  TypeError. The slice branch (lines 96 and 97) is not embedded: no property below
  indexes with a slice.
\<close>

datatype item =
    Index int
  | IndexList "int list"
  | MaskList "bool list"
  | IndexArray "int list"
  | Unsupported

datatype item_result = Species Atom | Substructure Structure

definition argwhere :: "bool list \<Rightarrow> int list" where
  "argwhere bs = map int (filter (\<lambda>i. bs ! i) [0..<length bs])"

definition select_sites :: "(string \<Rightarrow> int) \<Rightarrow> Structure \<Rightarrow> int list \<Rightarrow> py_error + item_result" where
  "select_sites Zof s idx =
     (case take_at (frac_coords s) idx of
        Inl e \<Rightarrow> Inl e
      | Inr fc \<Rightarrow>
         (case take_at (items (symbols s)) idx of
            Inl e \<Rightarrow> Inl e
          | Inr syms \<Rightarrow> Inr (Substructure (Structure_init Zof (lattice s) fc syms default_pbc))))"

fun getitem :: "(string \<Rightarrow> int) \<Rightarrow> Structure \<Rightarrow> item \<Rightarrow> py_error + item_result" where
  "getitem Zof s (Index i) =
     (if i < - int (num_atoms s) \<or> i \<ge> int (num_atoms s) then Inl IndexError
      else (case py_index (species s) i of Inl e \<Rightarrow> Inl e | Inr a \<Rightarrow> Inr (Species a)))"
| "getitem Zof s (IndexList idx) =
     (if idx = [] \<or> \<not> list_all int64 idx then Inl TypeError else select_sites Zof s idx)"
| "getitem Zof s (MaskList bs) =
     (if bs = [] then Inl TypeError else select_sites Zof s (argwhere bs))"
| "getitem Zof s (IndexArray idx) = select_sites Zof s idx"
| "getitem Zof s Unsupported = Inl TypeError"

text \<open>
  \<open>Structure.sorted\<close> (line 81) indexes the structure with
  \<open>np.argsort(self._numbers)\<close>. \<open>np.argsort\<close> is called with its default kind,
  which numpy documents as not stable, so the order it gives to equal numbers is not
  fixed by the source. The sorting routine is therefore the parameter \<open>argsort\<close>;
  \<open>is_argsort\<close> is what numpy promises of it: the result lists every position once and
  reads the numbers in ascending order.
\<close>

definition is_argsort :: "int list \<Rightarrow> nat list \<Rightarrow> bool" where
  "is_argsort xs p \<longleftrightarrow> mset p = mset [0..<length xs] \<and> sorted (map (\<lambda>i. xs ! i) p)"

definition Structure_sorted ::
  "(int list \<Rightarrow> nat list) \<Rightarrow> (string \<Rightarrow> int) \<Rightarrow> Structure \<Rightarrow> py_error + item_result" where
  "Structure_sorted argsort Zof s = getitem Zof s (IndexArray (map int (argsort (numbers s))))"

text \<open>
  \<open>Structure.with_species\<close> (lines 129 to 152). \<open>which\<close> is a Python list of
  integers; \<open>which or tuple(range)\<close> evaluates \<open>tuple(range)\<close> when \<open>which\<close> is empty
  (or \<open>None\<close>), which raises TypeError. The new structure is built without a \<open>pbc\<close>
  argument, so it gets the constructor's default. The store is the one of an int64
  index array; the properties of \<open>with_species\<close> that depend on how an index is
  refused take the indices within the int64 range.
\<close>

definition with_species ::
  "(string \<Rightarrow> int) \<Rightarrow> Structure \<Rightarrow> string list \<Rightarrow> int list \<Rightarrow> py_error + Structure" where
  "with_species Zof s species' which =
     (if which = [] then Inl TypeError
      else if length species' < 1 then Inl ValueError
      else if length which \<noteq> length species' then Inl ValueError
      else (case put_at (symbols s) which species' of
              Inl e \<Rightarrow> Inl e
            | Inr new_symbols \<Rightarrow>
                Inr (Structure_init Zof (lattice s) (frac_coords s) (items new_symbols) default_pbc)))"

section \<open>Expanding a result document (commands/run.py)\<close>

text \<open>
  The result document read by \<open>expand_results\<close> (lines 73 to 90): the parent
  structure, the configurations by rank (each a list of symbols, or a dictionary whose
  entry \<open>configuration\<close> is one; \<open>Document None\<close> is a dictionary without that
  entry) and, for a sublattice run, the index list \<open>which\<close>. The fields carry the
  keys of the document behind the prefix \<open>doc\<close>.
\<close>

datatype conf_entry = Symbols "string list" | Document "string list option"

record result_document =
  doc_structure :: Structure
  doc_configurations :: "(int \<times> conf_entry) list"
  doc_which :: "int list option"

definition configuration_of :: "conf_entry \<Rightarrow> py_error + string list" where
  "configuration_of c =
     (case c of
        Symbols conf \<Rightarrow> Inr conf
      | Document None \<Rightarrow> Inl (KeyError ''configuration'')
      | Document (Some conf) \<Rightarrow> Inr conf)"

text \<open>
  \<open>new_species\<close> (lines 78 to 84). \<open>species = s.symbols\<close> is the parent's own
  \<open>_symbols\<close> array, not a copy, so the store \<open>species[mask] = conf\<close> changes the
  parent in place and the next configuration starts from the changed array. The array
  is therefore passed in and returned. \<open>np.array(dense.which, dtype=int)\<close> (line 81)
  raises OverflowError for an integer outside the int64 range.
\<close>

definition new_species ::
  "int list option \<Rightarrow> str_array \<Rightarrow> string list \<Rightarrow> py_error + string list \<times> str_array" where
  "new_species w arr conf =
     (case w of
        None \<Rightarrow> Inr (conf, arr)
      | Some the_mask \<Rightarrow>
         (if \<not> list_all int64 the_mask then Inl OverflowError
          else
            (case put_at arr the_mask conf of
               Inl e \<Rightarrow> Inl e
             | Inr arr' \<Rightarrow> Inr (items arr', arr'))))"

text \<open>The dictionary comprehension of lines 86 to 90, in the order of the items.\<close>

fun expand_loop ::
  "(string \<Rightarrow> int) \<Rightarrow> Structure \<Rightarrow> int list option \<Rightarrow> str_array \<Rightarrow> (int \<times> conf_entry) list
     \<Rightarrow> py_error + (int \<times> Structure) list \<times> str_array" where
  "expand_loop Zof s w arr [] = Inr ([], arr)"
| "expand_loop Zof s w arr ((rank, c) # rest) =
     (case configuration_of c of
        Inl e \<Rightarrow> Inl e
      | Inr conf \<Rightarrow>
         (case new_species w arr conf of
            Inl e \<Rightarrow> Inl e
          | Inr (syms, arr') \<Rightarrow>
             (case expand_loop Zof s w arr' rest of
                Inl e \<Rightarrow> Inl e
              | Inr (out, arr'') \<Rightarrow>
                  Inr ((rank, Structure_init Zof (lattice s) (frac_coords s) syms default_pbc) # out,
                       arr''))))"

text \<open>
  \<open>expand_results\<close> returns the structures by rank; the second component is the
  parent structure as the stores leave it.
\<close>

definition expand_results ::
  "(string \<Rightarrow> int) \<Rightarrow> result_document \<Rightarrow> py_error + (int \<times> Structure) list \<times> Structure" where
  "expand_results Zof dense =
     (let s = doc_structure dense in
      case expand_loop Zof s (doc_which dense) (symbols s) (doc_configurations dense) of
        Inl e \<Rightarrow> Inl e
      | Inr (out, arr) \<Rightarrow> Inr (out, s\<lparr>symbols := arr\<rparr>))"

section \<open>The parameter decorator (settings/functional.py)\<close>

text \<open>
  A settings object is a mapping from names to values. The arguments of
  \<open>parameter\<close> (lines 17 to 52): \<open>default\<close> is \<open>Default.NoDefault\<close>, a value or a
  callable; \<open>required\<close> is a Boolean or a callable; \<open>key\<close> is \<open>None\<close>, a string
  or a callable. \<open>get_required\<close> and \<open>get_key\<close> return their argument as it is in
  both branches, so a callable is never called: as \<open>required\<close> it is a true value, as
  \<open>key\<close> it is an object that is not a key of the settings. The wrapper returns
  \<open>None\<close> when the key is absent and the parameter is not required. Logging and the
  entry in \<open>registry\<close> are left out.
\<close>

type_synonym 'v settings = "string \<rightharpoonup> 'v"

datatype ('s, 'a) default_arg = NoDefault | DefaultValue 'a | DefaultCallable "'s \<Rightarrow> py_error + 'a"

datatype required_arg = RequiredBool bool | RequiredCallable

datatype key_arg = KeyNone | KeyStr string | KeyCallable

definition get_key :: "string \<Rightarrow> key_arg \<Rightarrow> key_arg" where
  "get_key name key = (case key of KeyNone \<Rightarrow> KeyStr name | KeyStr k \<Rightarrow> KeyStr k | KeyCallable \<Rightarrow> KeyCallable)"

definition not_in_settings :: "key_arg \<Rightarrow> 'v settings \<Rightarrow> bool" where
  "not_in_settings k settings =
     (case k of KeyStr x \<Rightarrow> settings x = None | KeyNone \<Rightarrow> True | KeyCallable \<Rightarrow> True)"

definition get_required :: "required_arg \<Rightarrow> bool" where
  "get_required required = (case required of RequiredBool b \<Rightarrow> b | RequiredCallable \<Rightarrow> True)"

definition not_found :: "string \<Rightarrow> string" where
  "not_found name = ''Required parameter '' @ [CHR 0x22] @ name @ [CHR 0x22] @ '' was not found''"

definition parameter ::
  "string \<Rightarrow> ('v settings, 'a) default_arg \<Rightarrow> required_arg \<Rightarrow> key_arg
     \<Rightarrow> ('v settings \<Rightarrow> py_error + 'a) \<Rightarrow> 'v settings \<Rightarrow> py_error + 'a option" where
  "parameter name dflt required key f settings =
     (if not_in_settings (get_key name key) settings then
        (if get_required required then
           (case dflt of
              NoDefault \<Rightarrow> Inl (BadSettings (not_found name) (Some name))
            | DefaultValue d \<Rightarrow> Inr (Some d)
            | DefaultCallable g \<Rightarrow> (case g settings of Inl e \<Rightarrow> Inl e | Inr d \<Rightarrow> Inr (Some d)))
         else Inr None)
      else
        (case f settings of
           Inl (BadSettings msg p) \<Rightarrow> Inl (BadSettings msg (Some name))
         | Inl e \<Rightarrow> Inl e
         | Inr v \<Rightarrow> Inr (Some v)))"

section \<open>construct_settings (settings/__init__.py)\<close>

text \<open>
  \<open>construct_settings\<close> (lines 10 to 45) works on objects: the caller's settings is
  one object of the heap, the copy another. The heap is the list of the mappings by
  address; \<open>AttrDict(settings.copy())\<close> allocates the next free address.
  \<open>process_settings\<close> (settings/readers.py) is not among the sources and is a
  parameter, as are \<open>dict\<close> and \<open>list\<close> on the opaque values. The extension
  object \<open>IterationSettings\<close> is the list of its eleven constructor arguments.
  Reading an attribute that the \<open>AttrDict\<close> does not have raises AttributeError.
\<close>

datatype 'v IterationSettings = IterationSettings "'v list"

datatype argument = Attr string | DictOf string | ListOf string

definition iteration_arguments :: "argument list" where
  "iteration_arguments =
     [Attr ''structure'', Attr ''target_objective'', Attr ''pair_weights'',
      DictOf ''shell_weights'', Attr ''iterations'', Attr ''max_output_configurations'',
      ListOf ''shell_distances'', ListOf ''threads_per_rank'', Attr ''atol'', Attr ''rtol'',
      Attr ''mode'']"

definition getattr :: "'v settings \<Rightarrow> string \<Rightarrow> py_error + 'v" where
  "getattr m a = (case m a of None \<Rightarrow> Inl (AttributeError a) | Some v \<Rightarrow> Inr v)"

definition evaluate ::
  "('v \<Rightarrow> py_error + 'v) \<Rightarrow> ('v \<Rightarrow> py_error + 'v) \<Rightarrow> 'v settings \<Rightarrow> argument \<Rightarrow> py_error + 'v" where
  "evaluate py_dict py_list m arg =
     (case arg of
        Attr a \<Rightarrow> getattr m a
      | DictOf a \<Rightarrow> (case getattr m a of Inl e \<Rightarrow> Inl e | Inr v \<Rightarrow> py_dict v)
      | ListOf a \<Rightarrow> (case getattr m a of Inl e \<Rightarrow> Inl e | Inr v \<Rightarrow> py_list v))"

fun evaluate_all ::
  "('v \<Rightarrow> py_error + 'v) \<Rightarrow> ('v \<Rightarrow> py_error + 'v) \<Rightarrow> 'v settings \<Rightarrow> argument list \<Rightarrow> py_error + 'v list" where
  "evaluate_all py_dict py_list m [] = Inr []"
| "evaluate_all py_dict py_list m (arg # rest) =
     (case evaluate py_dict py_list m arg of
        Inl e \<Rightarrow> Inl e
      | Inr v \<Rightarrow>
         (case evaluate_all py_dict py_list m rest of
            Inl e \<Rightarrow> Inl e
          | Inr vs \<Rightarrow> Inr (v # vs)))"

text \<open>The loop over \<open>overloads.items()\<close> (lines 27 to 30), on the object at address \<open>b\<close>.\<close>

fun apply_overloads ::
  "'v settings list \<Rightarrow> nat \<Rightarrow> (string \<times> 'v) list \<Rightarrow> py_error option \<times> 'v settings list" where
  "apply_overloads heap b [] = (None, heap)"
| "apply_overloads heap b ((overload, v) # rest) =
     (if (heap ! b) overload = None then (Some (KeyError overload), heap)
      else apply_overloads (heap[b := (heap ! b)(overload \<mapsto> v)]) b rest)"

definition construct_settings ::
  "('v settings \<Rightarrow> py_error + 'v settings) \<Rightarrow> ('v \<Rightarrow> py_error + 'v) \<Rightarrow> ('v \<Rightarrow> py_error + 'v)
     \<Rightarrow> 'v settings list \<Rightarrow> nat \<Rightarrow> bool \<Rightarrow> (string \<times> 'v) list
     \<Rightarrow> (py_error + 'v IterationSettings) \<times> 'v settings list" where
  "construct_settings process_settings py_dict py_list heap a process overloads =
     (let b = length heap;
          heap1 = heap @ [heap ! a]
      in case apply_overloads heap1 b overloads of
           (Some e, heap2) \<Rightarrow> (Inl e, heap2)
         | (None, heap2) \<Rightarrow>
            (case (if process then process_settings (heap2 ! b) else Inr (heap2 ! b)) of
               Inl e \<Rightarrow> (Inl e, heap2)
             | Inr m \<Rightarrow>
                (let heap3 = heap2[b := m]
                 in case evaluate_all py_dict py_list m iteration_arguments of
                      Inl e \<Rightarrow> (Inl e, heap3)
                    | Inr args \<Rightarrow> (Inr (IterationSettings args), heap3))))"

section \<open>Readers known from their tests (settings/readers.py)\<close>

text \<open>
  The raw values of a settings document that the two readers below look at: a real
  number, a number that is not real (\<open>complex(1, 2)\<close> in the test), a string, a
  sequence, the shell weights (shell index and weight) and a structure.
\<close>

datatype raw =
    Num real
  | NotReal
  | Text string
  | Seq "raw list"
  | Weights "(int \<times> real) list"
  | Struct Structure

definition is_num :: "raw \<Rightarrow> bool" where
  "is_num x = (case x of Num r \<Rightarrow> True | _ \<Rightarrow> False)"

definition num :: "raw \<Rightarrow> real" where
  "num x = (case x of Num r \<Rightarrow> r | _ \<Rightarrow> 0)"

definition with_leading_zero :: "real list \<Rightarrow> real list" where
  "with_leading_zero ds = (case ds of [] \<Rightarrow> [0] | d # rest \<Rightarrow> if d = 0 then ds else 0 # ds)"

text \<open>
  Modelled from the spec: \<open>read_shell_distances\<close> of settings/readers.py is not among
  the sources; only its test (test_readers.py, lines 212 to 238) is. Section 4.G:
  strictly increasing positive reals; a leading 0 is inserted if absent; length at
  least 2. The test has the reader fall back on \<open>default_shell_distances\<close> (a
  parameter here) when the key is absent.
\<close>

definition shell_distances_reader :: "raw settings \<Rightarrow> py_error + real list" where
  "shell_distances_reader settings =
     (case settings ''shell_distances'' of
        None \<Rightarrow> Inl (AttributeError ''shell_distances'')
      | Some (Seq xs) \<Rightarrow>
          if \<not> list_all is_num xs then Inl (BadSettings ''shell distances must be real'' None)
          else
            (let ds = with_leading_zero (map num xs)
             in if length ds < 2 \<or> \<not> sorted_wrt (<) ds
                then Inl (BadSettings ''shell distances must increase strictly'' None)
                else Inr ds)
      | Some other \<Rightarrow> Inl (BadSettings ''shell distances must be a sequence'' None))"

definition read_shell_distances ::
  "(raw settings \<Rightarrow> py_error + real list) \<Rightarrow> raw settings \<Rightarrow> py_error + real list option" where
  "read_shell_distances default_shell_distances =
     parameter ''shell_distances'' (DefaultCallable default_shell_distances) (RequiredBool True)
       KeyNone shell_distances_reader"









section \<open>Notions and example values for the properties\<close>

text \<open>
  The periodic table of the extension is not among the sources; the properties below
  hold for any table. The closed examples use these entries of it.
\<close>

definition example_table :: "string \<Rightarrow> int" where
  "example_table x =
     (if x = ''H'' then 1 else if x = ''He'' then 2 else if x = ''N'' then 7
      else if x = ''F'' then 9 else if x = ''Na'' then 11 else if x = ''Cl'' then 17
      else if x = ''K'' then 19 else if x = ''Cs'' then 55 else 0)"

definition cubic :: "vec3 \<times> vec3 \<times> vec3" where
  "cubic = ((412 / 100, 0, 0), (0, 412 / 100, 0), (0, 0, 412 / 100))"

text \<open>
  The two-atom CsCl cell of the spec's scenario S1, the same cell with the first axis
  not periodic, and a cell of two hydrogen atoms.
\<close>

definition CsCl :: Structure where
  "CsCl = Structure_init example_table cubic [(0, 0, 0), (1 / 2, 1 / 2, 1 / 2)] [''Cs'', ''Cl''] default_pbc"

definition CsCl_slab :: Structure where
  "CsCl_slab = Structure_init example_table cubic [(0, 0, 0), (1 / 2, 1 / 2, 1 / 2)] [''Cs'', ''Cl''] (False, True, True)"

definition H2 :: Structure where
  "H2 = Structure_init example_table cubic [(0, 0, 0), (1 / 2, 1 / 2, 1 / 2)] [''H'', ''H''] default_pbc"

text \<open>
  A cell of two potassium atoms and one fluorine atom, all of one-letter symbols; a
  cell of two helium and two hydrogen atoms; and a cell that is not periodic on its
  first axis, with a coordinate outside \<open>[0, 1)\<close> there.
\<close>

definition K2F :: Structure where
  "K2F = Structure_init example_table cubic [(0, 0, 0), (1 / 2, 1 / 2, 0), (1 / 2, 0, 1 / 2)]
           [''K'', ''K'', ''F''] default_pbc"

definition He2H2 :: Structure where
  "He2H2 = Structure_init example_table cubic
             [(0, 0, 0), (1 / 2, 1 / 2, 0), (1 / 2, 0, 1 / 2), (0, 1 / 2, 1 / 2)]
             [''He'', ''He'', ''H'', ''H''] default_pbc"

definition ClCs_rod :: Structure where
  "ClCs_rod = Structure_init example_table cubic [(3 / 2, 0, 0), (1 / 2, 1 / 2, 1 / 2)]
                [''Cl'', ''Cs''] (False, True, True)"

text \<open>
  The sites of a structure: each coordinate with the species sitting on it.
\<close>

definition sites :: "Structure \<Rightarrow> (vec3 \<times> Atom) list" where
  "sites s = zip (frac_coords s) (species s)"

text \<open>
  The sites with the coordinates made canonical on all three axes, as the constructor
  makes them under the default \<open>pbc\<close> flags.
\<close>

definition canonical_sites :: "Structure \<Rightarrow> (vec3 \<times> Atom) list" where
  "canonical_sites s = zip (map (canonical (True, True, True)) (frac_coords s)) (species s)"

text \<open>
  Two sorting routines that numpy's promise admits: the first keeps equal numbers in
  their order (what \<open>kind='stable'\<close> would give), the second lists them by
  descending position.
\<close>

definition stable_argsort :: "int list \<Rightarrow> nat list" where
  "stable_argsort xs = sort_key (\<lambda>i. xs ! i) [0..<length xs]"

definition descending_ties :: "int list \<Rightarrow> nat list" where
  "descending_ties xs = sort_key (\<lambda>i. xs ! i) (rev [0..<length xs])"

text \<open>
  A result document over the CsCl cell with the first site as sublattice.
\<close>

definition CsCl_document :: result_document where
  "CsCl_document =
     \<lparr>doc_structure = CsCl,
      doc_configurations = [(0, Symbols [''H'']), (1, Document (Some [''He'']))],
      doc_which = Some [0]\<rparr>"

text \<open>
  A result document over the cell of potassium and fluorine, with the two potassium
  sites as sublattice and one configuration that puts sodium and potassium there.
\<close>

definition K2F_document :: result_document where
  "K2F_document =
     \<lparr>doc_structure = K2F, doc_configurations = [(0, Symbols [''Na'', ''K''])],
      doc_which = Some [0, 1]\<rparr>"

text \<open>
  A reader body in the manner of \<open>read_atol\<close>, which the test expects to refuse a
  negative value.
\<close>

definition negative_atol :: "real settings \<Rightarrow> py_error + real" where
  "negative_atol settings =
     (case settings ''atol'' of
        None \<Rightarrow> Inl (AttributeError ''atol'')
      | Some x \<Rightarrow> if x < 0 then Inl (BadSettings ''negative'' None) else Inr x)"

text \<open>
  A settings object with the eleven entries that \<open>construct_settings\<close> reads; the
  values are opaque and numbered here.
\<close>

definition full_settings :: "nat settings" where
  "full_settings =
     [''structure'' \<mapsto> 0, ''target_objective'' \<mapsto> 1, ''pair_weights'' \<mapsto> 2,
      ''shell_weights'' \<mapsto> 3, ''iterations'' \<mapsto> 4, ''max_output_configurations'' \<mapsto> 5,
      ''shell_distances'' \<mapsto> 6, ''threads_per_rank'' \<mapsto> 7, ''atol'' \<mapsto> 8, ''rtol'' \<mapsto> 9,
      ''mode'' \<mapsto> 10]"

text \<open>
  The result is a BadSettings error whose \<open>parameter\<close> attribute is the given name.
\<close>

definition bad_settings_for :: "string \<Rightarrow> py_error + 'a \<Rightarrow> bool" where
  "bad_settings_for name r = (case r of Inl (BadSettings msg p) \<Rightarrow> p = Some name | _ \<Rightarrow> False)"

section \<open>Stores into the symbol array\<close>

lemma length_fold_store: "length (fold (store w n) ivs xs) = length xs"
  by (induction ivs arbitrary: xs) (simp_all add: store_def)

lemma fold_store_nth_other:
  "j \<notin> position n ` fst ` set ivs \<Longrightarrow> fold (store w n) ivs xs ! j = xs ! j"
  by (induction ivs arbitrary: xs) (auto simp: store_def)

lemma fold_store_nth_hit:
  assumes "distinct (map (\<lambda>iv. position n (fst iv)) ivs)"
    and "\<forall>iv\<in>set ivs. position n (fst iv) < length xs"
    and "k < length ivs"
  shows "fold (store w n) ivs xs ! position n (fst (ivs ! k)) = take w (snd (ivs ! k))"
  using assms
proof (induction ivs arbitrary: xs k)
  case Nil
  then show ?case by simp
next
  case (Cons iv ivs)
  show ?case
  proof (cases k)
    case 0
    have "position n (fst iv) \<notin> position n ` fst ` set ivs"
      using Cons.prems(1) by (auto simp: image_iff)
    then have "fold (store w n) ivs (store w n iv xs) ! position n (fst iv)
                 = store w n iv xs ! position n (fst iv)"
      by (rule fold_store_nth_other)
    also have "\<dots> = take w (snd iv)"
      using Cons.prems(2) by (simp add: store_def)
    finally show ?thesis using 0 by simp
  next
    case (Suc k')
    have "fold (store w n) ivs (store w n iv xs) ! position n (fst (ivs ! k')) = take w (snd (ivs ! k'))"
    proof (rule Cons.IH)
      show "distinct (map (\<lambda>iv. position n (fst iv)) ivs)" using Cons.prems(1) by simp
      show "\<forall>iv'\<in>set ivs. position n (fst iv') < length (store w n iv xs)"
        using Cons.prems(2) by (simp add: store_def)
      show "k' < length ivs" using Cons.prems(3) Suc by simp
    qed
    then show ?thesis using Suc by simp
  qed
qed

lemma position_nonneg: "0 \<le> i \<Longrightarrow> position n i = nat i"
  by (simp add: position_def)

lemma position_less: "in_bounds n i \<Longrightarrow> position n i < n"
  by (auto simp: position_def in_bounds_def)

lemma items_np_array: "items (np_array xs) = xs"
  by (simp add: np_array_def)

section \<open>What the constructor establishes\<close>

lemma symbol_atom_of: "symbol (atom_of Zof x) = x" and Z_atom_of: "Z (atom_of Zof x) = Zof x"
  by (simp_all add: atom_of_def)

lemma Structure_init_fields:
  "lattice (Structure_init Zof l fc syms p) = l"
  "frac_coords (Structure_init Zof l fc syms p) = map (canonical p) fc"
  "species (Structure_init Zof l fc syms p) = map (atom_of Zof) syms"
  "pbc (Structure_init Zof l fc syms p) = p"
  "symbols (Structure_init Zof l fc syms p) = np_array syms"
  "numbers (Structure_init Zof l fc syms p) = map Zof syms"
  "unique_species (Structure_init Zof l fc syms p) = set syms"
  by (simp_all add: Structure_init_def Let_def comp_def symbol_atom_of Z_atom_of image_image)

lemma constructed_symbols:
  assumes "constructed Zof s"
  shows "items (symbols s) = map symbol (species s)"
proof -
  have "symbols s = symbols (Structure_init Zof (lattice s) (frac_coords s) (map symbol (species s)) (pbc s))"
    using assms by (simp add: constructed_def)
  then show ?thesis by (simp add: Structure_init_fields items_np_array)
qed

lemma constructed_species:
  assumes "constructed Zof s"
  shows "species s = map (atom_of Zof) (map symbol (species s))"
proof -
  have "species s = species (Structure_init Zof (lattice s) (frac_coords s) (map symbol (species s)) (pbc s))"
    using assms by (simp add: constructed_def)
  then show ?thesis by (simp add: Structure_init_fields)
qed


lemma constructed_numbers:
  assumes "constructed Zof s"
  shows "numbers s = map Z (species s)"
proof -
  have "numbers s = numbers (Structure_init Zof (lattice s) (frac_coords s) (map symbol (species s)) (pbc s))"
    using assms by (simp add: constructed_def)
  then have "numbers s = map Zof (map symbol (species s))" by (simp add: Structure_init_fields)
  moreover have "map Z (species s) = map Z (map (atom_of Zof) (map symbol (species s)))"
    using constructed_species [OF assms] by simp
  ultimately show ?thesis by (simp add: comp_def Z_atom_of)
qed

lemma constructed_atom:
  assumes "constructed Zof s" and "i < length (species s)"
  shows "atom_of Zof (symbol (species s ! i)) = species s ! i"
proof -
  have "species s ! i = map (atom_of Zof) (map symbol (species s)) ! i"
    using constructed_species [OF assms(1)] by simp
  then show ?thesis using assms(2) by simp
qed

lemma canonical_idem: "canonical p (canonical p c) = canonical p c"
  by (cases p; cases c) (simp add: canonical_def)

lemma constructed_init:
  "length fc = length syms \<Longrightarrow> constructed Zof (Structure_init Zof l fc syms p)"
  by (simp add: constructed_def Structure_init_fields comp_def symbol_atom_of)
     (simp add: Structure_init_def Let_def comp_def canonical_idem)

lemma constructed_examples: "constructed example_table CsCl" "constructed example_table CsCl_slab"
  "constructed example_table H2"
  by (simp_all add: CsCl_def CsCl_slab_def H2_def constructed_init)

lemma constructed_more_examples: "constructed example_table K2F" "constructed example_table He2H2"
  "constructed example_table ClCs_rod"
  by (simp_all add: K2F_def He2H2_def ClCs_rod_def constructed_init)

lemma constructed_length_items:
  "constructed Zof s \<Longrightarrow> length (items (symbols s)) = num_atoms s"
  by (simp add: constructed_symbols num_atoms_def)

lemma with_species_returns:
  assumes "constructed Zof s" and "which \<noteq> []" and "length species' = length which"
    and "list_all (in_bounds (num_atoms s)) which"
  shows "with_species Zof s species' which =
           Inr (Structure_init Zof (lattice s) (frac_coords s)
                  (fold (store (width (symbols s)) (num_atoms s)) (zip which species')
                     (map symbol (species s)))
                  default_pbc)"
  using assms constructed_length_items [OF assms(1)] constructed_symbols [OF assms(1)]
  by (simp add: with_species_def put_at_def Let_def broadcast_def)

section \<open>Indexing a structure with an integer\<close>

text \<open>
  Claim C10. For a structure of \<open>N\<close> atoms and an integer \<open>i\<close>, \<open>s[i]\<close> is the
  species entry at position \<open>i\<close> when \<open>-N \<le> i < N\<close>, a negative \<open>i\<close> counting from
  the end, and raises IndexError for every other integer; the result is never a
  structure.
\<close>

theorem getitem_integer_index:
  "getitem Zof s (Index i) =
     (if - int (num_atoms s) \<le> i \<and> i < int (num_atoms s)
      then Inr (Species (species s ! nat (if i < 0 then i + int (num_atoms s) else i)))
      else Inl IndexError)
   \<and> getitem Zof s (Index i) \<noteq> Inr (Substructure r)"
  by (auto simp: py_index_def in_bounds_def position_def num_atoms_def)

lemma CsCl_species: "species CsCl = [\<lparr>symbol = ''Cs'', Z = 55\<rparr>, \<lparr>symbol = ''Cl'', Z = 17\<rparr>]"
  by (simp add: CsCl_def Structure_init_fields atom_of_def example_table_def)

text \<open>
  On the CsCl cell: \<open>s[-1]\<close> is the chlorine atom, \<open>s[2]\<close> and \<open>s[-3]\<close> raise.
\<close>

theorem getitem_integer_index_witness:
  "getitem example_table CsCl (Index (- 1)) = Inr (Species \<lparr>symbol = ''Cl'', Z = 17\<rparr>)
   \<and> getitem example_table CsCl (Index 2) = Inl IndexError
   \<and> getitem example_table CsCl (Index (- 3)) = Inl IndexError
   \<and> getitem example_table CsCl (Index (- 1)) \<noteq> Inr (Substructure CsCl)"
  using getitem_integer_index [of example_table CsCl "- 1" CsCl]
    getitem_integer_index [of example_table CsCl 2 CsCl]
    getitem_integer_index [of example_table CsCl "- 3" CsCl]
  by (simp add: num_atoms_def CsCl_species)

section \<open>with_species\<close>

lemma fold_store_zip_other:
  assumes "\<forall>i\<in>set which. position n i \<noteq> j"
  shows "fold (store w n) (zip which vs) xs ! j = xs ! j"
proof (rule fold_store_nth_other)
  show "j \<notin> position n ` fst ` set (zip which vs)"
    using assms by (auto dest: set_zip_leftD)
qed


lemma CsCl_fields:
  "lattice CsCl = cubic" "frac_coords CsCl = [(0, 0, 0), (1 / 2, 1 / 2, 1 / 2)]"
  "pbc CsCl = (True, True, True)" "num_atoms CsCl = 2"
  by (simp_all add: CsCl_def Structure_init_fields num_atoms_def default_pbc_def canonical_def)



text \<open>
  Claim C6, amended. For a structure built by the constructor and indices within the
  int64 range, \<open>with_species\<close> raises exactly when the number of symbols differs
  from the number of indices, or no symbol is given, or some index lies outside
  \<open>[-N, N)\<close>; in every other case it returns a structure.
\<close>

theorem with_species_raises_iff:
  assumes "constructed Zof s"
    and "\<forall>i\<in>set which. int64 i"
  shows "raises (with_species Zof s species' which) \<longleftrightarrow>
           length species' \<noteq> length which
           \<or> length species' < 1
           \<or> (\<exists>i\<in>set which. i < - int (num_atoms s) \<or> int (num_atoms s) \<le> i)"
proof -
  let ?n = "num_atoms s"
  have ex: "(\<exists>i\<in>set which. i < - int ?n \<or> int ?n \<le> i) \<longleftrightarrow> \<not> list_all (in_bounds ?n) which"
    unfolding list_all_iff in_bounds_def by (meson not_le)
  show ?thesis
  proof (cases "which \<noteq> [] \<and> length species' = length which \<and> list_all (in_bounds ?n) which")
    case True
    then have "\<not> raises (with_species Zof s species' which)"
      using with_species_returns [OF assms(1), of which species'] by (simp add: raises_def)
    then show ?thesis using True by (simp add: ex)
  next
    case False
    have len: "length (items (symbols s)) = ?n"
      using assms(1) by (rule constructed_length_items)
    have "raises (with_species Zof s species' which)"
      using False len by (auto simp: with_species_def put_at_def raises_def Let_def)
    moreover have "length species' \<noteq> length which \<or> length species' < 1
           \<or> \<not> list_all (in_bounds ?n) which"
      using False by (cases "which = []") auto
    ultimately show ?thesis by (simp add: ex)
  qed
qed

text \<open>
  On the CsCl cell: the indices 2 and -3, a length mismatch and empty arguments raise;
  the indices 1 and -2 do not.
\<close>

theorem with_species_raises_iff_witness:
  "raises (with_species example_table CsCl [''H''] [2])
   \<and> raises (with_species example_table CsCl [''H''] [- 3])
   \<and> raises (with_species example_table CsCl [''H'', ''He''] [0])
   \<and> raises (with_species example_table CsCl [] [])
   \<and> \<not> raises (with_species example_table CsCl [''H''] [1])
   \<and> \<not> raises (with_species example_table CsCl [''H''] [- 2])"
  using with_species_raises_iff [OF constructed_examples(1), of "[2]" "[''H'']"]
    with_species_raises_iff [OF constructed_examples(1), of "[- 3]" "[''H'']"]
    with_species_raises_iff [OF constructed_examples(1), of "[0]" "[''H'', ''He'']"]
    with_species_raises_iff [OF constructed_examples(1), of "[]" "[]"]
    with_species_raises_iff [OF constructed_examples(1), of "[1]" "[''H'']"]
    with_species_raises_iff [OF constructed_examples(1), of "[- 2]" "[''H'']"]
  by (simp add: CsCl_fields int64_def)

text \<open>
  Claim C6 as stated fails at the index -1, which lies outside \<open>[0, N)\<close>: the call
  returns, and the new symbol sits on the last site.
\<close>

theorem with_species_accepts_negative_index:
  "\<not> raises (with_species example_table CsCl [''H''] [- 1])
   \<and> map_sum id (\<lambda>r. map symbol (species r)) (with_species example_table CsCl [''H''] [- 1])
       = Inr [''Cs'', ''H'']
   \<and> (- 1 :: int) < 0"
  by (simp add: CsCl_def with_species_def put_at_def Structure_init_fields np_array_def
      in_bounds_def position_def store_def broadcast_def raises_def comp_def symbol_atom_of)

text \<open>
  Claim C7 fails on the code. The symbol array of two hydrogen atoms has width 1, so
  storing \<open>He\<close> on site 0 keeps \<open>H\<close>: reading the symbols of the returned structure
  at \<open>which\<close> gives \<open>H\<close>, not the symbol provided.
\<close>

theorem with_species_truncates:
  "map symbol (species H2) = [''H'', ''H'']
   \<and> map_sum id (\<lambda>r. take_at (items (symbols r)) [0]) (with_species example_table H2 [''He''] [0])
       = Inr (Inr [''H''])"
  by (simp add: H2_def with_species_def put_at_def Structure_init_fields np_array_def
      in_bounds_def position_def store_def broadcast_def take_at_def comp_def symbol_atom_of)

text \<open>
  Where no provided symbol is longer than the width of the symbol array of \<open>s\<close>, the
  round trip holds, also with negative indices, as long as no site is named twice.
\<close>

lemma with_species_roundtrip_when_fitting:
  assumes "constructed Zof s"
    and "which \<noteq> []"
    and "length species' = length which"
    and "list_all (in_bounds (num_atoms s)) which"
    and "distinct (map (position (num_atoms s)) which)"
    and "\<forall>x\<in>set species'. length x \<le> width (symbols s)"
  shows "\<exists>r. with_species Zof s species' which = Inr r
           \<and> take_at (items (symbols r)) which = Inr species'"
proof -
  let ?n = "num_atoms s"
  let ?w = "width (symbols s)"
  let ?ivs = "zip which species'"
  let ?new = "fold (store ?w ?n) ?ivs (map symbol (species s))"
  let ?r = "Structure_init Zof (lattice s) (frac_coords s) ?new default_pbc"
  have ret: "with_species Zof s species' which = Inr ?r"
    using assms(1-4) by (rule with_species_returns)
  have len: "length ?new = ?n"
    by (simp add: length_fold_store num_atoms_def)
  have d: "distinct (map (\<lambda>iv. position ?n (fst iv)) ?ivs)"
    using assms(3,5) by (simp add: map_fst_zip flip: map_map [unfolded comp_def])
  have b: "\<forall>iv\<in>set ?ivs. position ?n (fst iv) < length (map symbol (species s))"
    using assms(4) by (auto simp: list_all_iff num_atoms_def dest!: set_zip_leftD intro: position_less)
  have hit: "?new ! position ?n (which ! k) = species' ! k" if "k < length which" for k
  proof -
    have "?new ! position ?n (fst (?ivs ! k)) = take ?w (snd (?ivs ! k))"
      using d b that assms(3) by (intro fold_store_nth_hit) simp_all
    moreover have "length (species' ! k) \<le> ?w"
      using assms(3,6) that by simp
    ultimately show ?thesis using that assms(3) by simp
  qed
  have "map (\<lambda>i. ?new ! position ?n i) which = species'"
    using hit assms(3) by (intro nth_equalityI) simp_all
  then have "take_at (items (symbols ?r)) which = Inr species'"
    using len assms(4) by (simp add: take_at_def Structure_init_fields items_np_array)
  then show ?thesis using ret by blast
qed

section \<open>sorted\<close>

lemma is_argsort_descending_ties: "is_argsort xs (descending_ties xs)"
  by (simp add: is_argsort_def descending_ties_def)

lemma is_argsort_stable_argsort: "is_argsort xs (stable_argsort xs)"
  by (simp add: is_argsort_def stable_argsort_def)

lemma is_argsort_bounds:
  assumes "is_argsort xs p"
  shows "list_all (in_bounds (length xs)) (map int p)"
proof -
  have "set p = set [0..<length xs]"
    using assms by (metis is_argsort_def set_mset_mset)
  then show ?thesis by (auto simp: list_all_iff in_bounds_def)
qed

lemma position_int: "position n (int i) = i"
  by (simp add: position_def)

lemma take_at_argsort:
  assumes "is_argsort xs p" and "length ys = length xs"
  shows "take_at ys (map int p) = Inr (map (\<lambda>i. ys ! i) p)"
  using is_argsort_bounds [OF assms(1)] assms(2)
  by (simp add: take_at_def comp_def position_int)

lemma zip_nth_upt:
  "length xs = length ys \<Longrightarrow> map (\<lambda>i. (xs ! i, ys ! i)) [0..<length xs] = zip xs ys"
  by (rule nth_equalityI) simp_all

lemma zip_map_same: "zip (map f xs) (map g xs) = map (\<lambda>x. (f x, g x)) xs"
  by (induction xs) simp_all

lemma mset_map_argsort:
  assumes "is_argsort xs p"
  shows "mset (map f p) = mset (map f [0..<length xs])"
proof -
  have "mset (map f p) = image_mset f (mset p)" by simp
  also have "\<dots> = image_mset f (mset [0..<length xs])"
    using assms by (simp add: is_argsort_def)
  finally show ?thesis by simp
qed

lemma canonical_sites_id:
  "map (canonical (True, True, True)) (frac_coords s) = frac_coords s \<Longrightarrow> canonical_sites s = sites s"
  by (simp add: canonical_sites_def sites_def)

text \<open>
  The sorted structure is built with the default \<open>pbc\<close> flags, so its sites are the
  sites of \<open>s\<close>, with coordinates made canonical on all three axes, read in the order
  that the sorting routine returns.
\<close>

lemma sorted_sites:
  assumes "constructed Zof s"
    and "is_argsort (numbers s) (argsort (numbers s))"
  shows "\<exists>r. Structure_sorted argsort Zof s = Inr (Substructure r)
           \<and> lattice r = lattice s
           \<and> numbers r = map Z (species r)
           \<and> species r = map (\<lambda>i. species s ! i) (argsort (numbers s))
           \<and> sites r = map (\<lambda>i. canonical_sites s ! i) (argsort (numbers s))"
proof -
  let ?p = "argsort (numbers s)"
  let ?n = "length (species s)"
  let ?c = "canonical (True, True, True)"
  let ?fc = "map (\<lambda>i. frac_coords s ! i) ?p"
  let ?sy = "map (\<lambda>i. map symbol (species s) ! i) ?p"
  let ?r = "Structure_init Zof (lattice s) ?fc ?sy default_pbc"
  have num: "numbers s = map Z (species s)"
    using assms(1) by (rule constructed_numbers)
  have len_num: "length (numbers s) = ?n" by (simp add: num)
  have len_fc: "length (frac_coords s) = ?n"
    using assms(1) by (simp add: constructed_def)
  have p_set: "set ?p = {0..<?n}"
    using assms(2) len_num by (metis is_argsort_def set_mset_mset set_upt)
  have t1: "take_at (frac_coords s) (map int ?p) = Inr ?fc"
    using assms(2) len_fc len_num by (simp add: take_at_argsort)
  have t2: "take_at (items (symbols s)) (map int ?p) = Inr ?sy"
    using assms(2) len_num constructed_symbols [OF assms(1)] by (simp add: take_at_argsort)
  have ret: "Structure_sorted argsort Zof s = Inr (Substructure ?r)"
    by (simp add: Structure_sorted_def select_sites_def t1 t2)
  have fc_r: "frac_coords ?r = map (\<lambda>i. ?c (frac_coords s ! i)) ?p"
    by (simp add: Structure_init_fields default_pbc_def comp_def)
  have sp_r: "species ?r = map (\<lambda>i. species s ! i) ?p"
    using p_set constructed_atom [OF assms(1)] by (simp add: Structure_init_fields)
  have "sites ?r = map (\<lambda>i. (?c (frac_coords s ! i), species s ! i)) ?p"
    unfolding sites_def fc_r sp_r by (rule zip_map_same)
  moreover have "(?c (frac_coords s ! i), species s ! i) = canonical_sites s ! i" if "i \<in> set ?p" for i
    using that p_set len_fc by (simp add: canonical_sites_def)
  ultimately have sites_r: "sites ?r = map (\<lambda>i. canonical_sites s ! i) ?p"
    by simp
  have nums: "numbers ?r = map Z (species ?r)"
    by (simp add: Structure_init_fields comp_def Z_atom_of)
  show ?thesis
    using ret nums sites_r sp_r by (intro exI [of _ ?r]) (simp add: Structure_init_fields)
qed

text \<open>
  Claim C8, amended. For a structure built by the constructor and every sorting
  routine that keeps numpy's promise, \<open>sorted\<close> returns a structure with the same
  lattice whose atomic numbers ascend and whose sites are a permutation of the sites
  of \<open>s\<close> with coordinates made canonical on all three axes; they are a permutation
  of the sites of \<open>s\<close> themselves when the coordinates of \<open>s\<close> are canonical
  already, as they are when \<open>s\<close> is periodic on all three axes. Nothing is said about
  the order of sites with equal numbers.
\<close>

theorem sorted_ascending_permutation:
  assumes "constructed Zof s"
    and "is_argsort (numbers s) (argsort (numbers s))"
  shows "\<exists>r. Structure_sorted argsort Zof s = Inr (Substructure r)
           \<and> lattice r = lattice s
           \<and> mset (sites r) = mset (canonical_sites s)
           \<and> (map (canonical (True, True, True)) (frac_coords s) = frac_coords s
                \<longrightarrow> mset (sites r) = mset (sites s))
           \<and> numbers r = map Z (species r)
           \<and> sorted (numbers r)"
proof -
  let ?p = "argsort (numbers s)"
  obtain r where ret: "Structure_sorted argsort Zof s = Inr (Substructure r)"
    and lat: "lattice r = lattice s"
    and nums: "numbers r = map Z (species r)"
    and sp_r: "species r = map (\<lambda>i. species s ! i) ?p"
    and sites_r: "sites r = map (\<lambda>i. canonical_sites s ! i) ?p"
    using sorted_sites [of Zof s argsort] assms by blast
  have num: "numbers s = map Z (species s)"
    using assms(1) by (rule constructed_numbers)
  have len_fc: "length (frac_coords s) = length (species s)"
    using assms(1) by (simp add: constructed_def)
  have len_s: "length (numbers s) = length (canonical_sites s)"
    using len_fc by (simp add: canonical_sites_def num)
  have p_set: "set ?p = {0..<length (numbers s)}"
    using assms(2) by (metis is_argsort_def set_mset_mset set_upt)
  have "mset (sites r) = mset (map (\<lambda>i. canonical_sites s ! i) [0..<length (numbers s)])"
    unfolding sites_r by (rule mset_map_argsort [OF assms(2)])
  also have "\<dots> = mset (canonical_sites s)"
    by (simp add: len_s map_nth)
  finally have perm: "mset (sites r) = mset (canonical_sites s)" .
  have perm': "mset (sites r) = mset (sites s)"
    if "map (canonical (True, True, True)) (frac_coords s) = frac_coords s"
    using perm canonical_sites_id [OF that] by simp
  have "Z (species s ! i) = numbers s ! i" if "i \<in> set ?p" for i
    using that p_set by (simp add: num)
  then have "map (\<lambda>i. Z (species s ! i)) ?p = map (\<lambda>i. numbers s ! i) ?p"
    by simp
  moreover have "map Z (species r) = map (\<lambda>i. Z (species s ! i)) ?p"
    unfolding sp_r by (simp add: comp_def)
  ultimately have "numbers r = map (\<lambda>i. numbers s ! i) ?p"
    using nums by (simp only:)
  moreover have "sorted (map (\<lambda>i. numbers s ! i) ?p)"
    using assms(2) by (simp add: is_argsort_def)
  ultimately have asc: "sorted (numbers r)"
    by (simp only:)
  show ?thesis
    using ret lat perm perm' nums asc by blast
qed

text \<open>
  With a stable routine the sites of equal atomic number keep their order: the
  stability of \<open>sorted\<close> is that of the sorting routine.
\<close>

lemma sorted_keeps_ties_with_stable_routine:
  assumes "constructed Zof s"
  shows "\<exists>r. Structure_sorted stable_argsort Zof s = Inr (Substructure r)
           \<and> filter (\<lambda>site. Z (snd site) = z) (sites r)
               = filter (\<lambda>site. Z (snd site) = z) (canonical_sites s)"
proof -
  let ?xs = "numbers s"
  let ?f = "\<lambda>i. ?xs ! i"
  let ?g = "\<lambda>i. canonical_sites s ! i"
  let ?P = "\<lambda>site. Z (snd site) = z"
  let ?p = "stable_argsort ?xs"
  have arg: "is_argsort ?xs ?p" by (rule is_argsort_stable_argsort)
  obtain r where ret: "Structure_sorted stable_argsort Zof s = Inr (Substructure r)"
    and sites_r: "sites r = map ?g ?p"
    using sorted_sites [of Zof s stable_argsort] assms arg by blast
  have num: "?xs = map Z (species s)"
    using assms(1) by (rule constructed_numbers)
  have len_fc: "length (frac_coords s) = length (species s)"
    using assms(1) by (simp add: constructed_def)
  have len_s: "length ?xs = length (canonical_sites s)"
    using len_fc by (simp add: canonical_sites_def num)
  have key: "?P (?g i) \<longleftrightarrow> ?f i = z" if "i < length ?xs" for i
    using that len_fc by (simp add: canonical_sites_def num)
  have p_set: "set ?p = {0..<length ?xs}"
    using arg by (metis is_argsort_def set_mset_mset set_upt)
  have "filter ?P (sites r) = map ?g (filter (\<lambda>i. ?P (?g i)) ?p)"
    by (simp add: sites_r filter_map comp_def)
  also have "filter (\<lambda>i. ?P (?g i)) ?p = filter (\<lambda>i. ?f i = z) ?p"
    using key p_set by (intro filter_cong) auto
  also have "\<dots> = filter (\<lambda>i. ?f i = z) [0..<length ?xs]"
    by (simp add: stable_argsort_def sort_key_stable)
  also have "\<dots> = filter (\<lambda>i. ?P (?g i)) [0..<length ?xs]"
    using key by (intro filter_cong) auto
  also have "map ?g \<dots> = filter ?P (map ?g [0..<length ?xs])"
    by (simp add: filter_map comp_def)
  also have "map ?g [0..<length ?xs] = canonical_sites s"
    by (simp add: len_s map_nth)
  finally show ?thesis using ret by blast
qed

lemma CsCl_numbers: "numbers CsCl = [55, 17]"
  by (simp add: CsCl_def Structure_init_fields example_table_def)

lemma descending_ties_two: "descending_ties [a, b] = (if b \<le> a then [1, 0] else [0, 1])"
  by (simp add: descending_ties_def upt_rec)

text \<open>
  Sorting the CsCl cell puts chlorine (17) before caesium (55).
\<close>

theorem sorted_ascending_permutation_witness:
  "\<exists>r. Structure_sorted descending_ties example_table CsCl = Inr (Substructure r)
     \<and> lattice r = cubic
     \<and> mset (sites r) = mset (sites CsCl)
     \<and> sorted (numbers r)"
  using sorted_ascending_permutation [of example_table CsCl descending_ties]
    constructed_examples(1) is_argsort_descending_ties [of "numbers CsCl"]
  by (auto simp: CsCl_fields canonical_def)

lemma H2_fields: "numbers H2 = [1, 1]" "frac_coords H2 = [(0, 0, 0), (1 / 2, 1 / 2, 1 / 2)]"
  "items (symbols H2) = [''H'', ''H'']" "lattice H2 = cubic"
  by (simp_all add: H2_def Structure_init_fields example_table_def default_pbc_def canonical_def
      np_array_def)

lemma He2H2_fields: "numbers He2H2 = [2, 2, 1, 1]"
  "frac_coords He2H2 = [(0, 0, 0), (1 / 2, 1 / 2, 0), (1 / 2, 0, 1 / 2), (0, 1 / 2, 1 / 2)]"
  "items (symbols He2H2) = [''He'', ''He'', ''H'', ''H'']" "lattice He2H2 = cubic"
  by (simp_all add: He2H2_def Structure_init_fields example_table_def default_pbc_def canonical_def
      np_array_def)

lemma ClCs_rod_fields: "numbers ClCs_rod = [17, 55]"
  "frac_coords ClCs_rod = [(3 / 2, 0, 0), (1 / 2, 1 / 2, 1 / 2)]"
  "items (symbols ClCs_rod) = [''Cl'', ''Cs'']" "lattice ClCs_rod = cubic"
  by (simp_all add: ClCs_rod_def Structure_init_fields example_table_def canonical_def np_array_def)

lemma descending_ties_He2H2: "descending_ties [2, 2, 1, 1] = [3, 2, 1, 0]"
  by (simp add: descending_ties_def upt_rec)

lemma frac_three_halves: "frac (3 / 2 :: real) = 1 / 2"
proof -
  have "(3 / 2 :: real) - 1 / 2 = 1" by simp
  then have "(3 / 2 :: real) - 1 / 2 \<in> \<int>" by (simp only: Ints_1)
  then show ?thesis by (subst frac_unique_iff) simp
qed

text \<open>
  Claim C8 as stated fails twice. On the numbers \<open>[2, 2, 1, 1]\<close> of two helium and
  two hydrogen atoms \<open>np.argsort\<close> with its default kind returns \<open>[3, 2, 1, 0]\<close>, as
  the routine used here does: both pairs of equal number come back in exchanged order.
  And a structure that is not periodic on its first axis, with the coordinate 3/2
  there, comes back with the coordinate 1/2: the sorted structure is built with the
  default flags, and its site is none of the sites of \<open>s\<close>.
\<close>

theorem sorted_not_stable:
  "numbers He2H2 = [2, 2, 1, 1]
   \<and> descending_ties (numbers He2H2) = [3, 2, 1, 0]
   \<and> frac_coords He2H2 = [(0, 0, 0), (1 / 2, 1 / 2, 0), (1 / 2, 0, 1 / 2), (0, 1 / 2, 1 / 2)]
   \<and> map_sum id (\<lambda>r. case r of Substructure t \<Rightarrow> frac_coords t | Species a \<Rightarrow> [])
        (Structure_sorted descending_ties example_table He2H2)
       = Inr [(0, 1 / 2, 1 / 2), (1 / 2, 0, 1 / 2), (1 / 2, 1 / 2, 0), (0, 0, 0)]
   \<and> frac_coords ClCs_rod = [(3 / 2, 0, 0), (1 / 2, 1 / 2, 1 / 2)]
   \<and> map_sum id (\<lambda>r. case r of Substructure t \<Rightarrow> frac_coords t | Species a \<Rightarrow> [])
        (Structure_sorted descending_ties example_table ClCs_rod)
       = Inr [(1 / 2, 0, 0), (1 / 2, 1 / 2, 1 / 2)]"
proof -
  have "map_sum id (\<lambda>r. case r of Substructure t \<Rightarrow> frac_coords t | Species a \<Rightarrow> [])
        (Structure_sorted descending_ties example_table He2H2)
       = Inr [(0, 1 / 2, 1 / 2), (1 / 2, 0, 1 / 2), (1 / 2, 1 / 2, 0), (0, 0, 0)]"
    by (simp add: He2H2_fields descending_ties_He2H2 Structure_sorted_def
        select_sites_def take_at_def in_bounds_def position_def Structure_init_fields
        default_pbc_def canonical_def)
  moreover have "map_sum id (\<lambda>r. case r of Substructure t \<Rightarrow> frac_coords t | Species a \<Rightarrow> [])
        (Structure_sorted descending_ties example_table ClCs_rod)
       = Inr [(1 / 2, 0, 0), (1 / 2, 1 / 2, 1 / 2)]"
    by (simp add: ClCs_rod_fields descending_ties_two Structure_sorted_def
        select_sites_def take_at_def in_bounds_def position_def Structure_init_fields
        default_pbc_def canonical_def frac_three_halves)
  ultimately show ?thesis
    by (simp add: He2H2_fields ClCs_rod_fields descending_ties_He2H2)
qed

section \<open>expand_results\<close>

lemma put_at_Inr:
  assumes "put_at a idx vs = Inr a'"
  shows "width a' = width a"
    and "length (items a') = length (items a)"
    and "list_all (in_bounds (length (items a))) idx"
    and "items a' = fold (store (width a) (length (items a))) (zip idx (broadcast (length idx) vs)) (items a)"
  using assms by (auto simp: put_at_def Let_def length_fold_store split: if_splits)

lemma put_at_other:
  assumes "put_at a idx vs = Inr a'" and "\<forall>i\<in>set idx. position (length (items a)) i \<noteq> j"
  shows "items a' ! j = items a ! j"
  unfolding put_at_Inr(4) [OF assms(1)] using assms(2) by (rule fold_store_zip_other)

lemma put_at_hit:
  assumes "put_at a idx vs = Inr a'"
    and "distinct (map (position (length (items a))) idx)"
    and "length vs = length idx"
    and "m < length idx"
  shows "items a' ! position (length (items a)) (idx ! m) = take (width a) (vs ! m)"
proof -
  let ?n = "length (items a)"
  let ?ivs = "zip idx vs"
  have bounds: "list_all (in_bounds ?n) idx" using assms(1) by (rule put_at_Inr(3))
  have d: "distinct (map (\<lambda>iv. position ?n (fst iv)) ?ivs)"
    using assms(2,3) by (simp add: map_fst_zip flip: map_map [unfolded comp_def])
  have b: "\<forall>iv\<in>set ?ivs. position ?n (fst iv) < length (items a)"
    using bounds by (auto simp: list_all_iff dest!: set_zip_leftD intro: position_less)
  have "fold (store (width a) ?n) ?ivs (items a) ! position ?n (fst (?ivs ! m)) = take (width a) (snd (?ivs ! m))"
    using d b assms(3,4) by (intro fold_store_nth_hit) simp_all
  then show ?thesis
    using assms(3,4) by (simp add: put_at_Inr(4) [OF assms(1)] broadcast_def)
qed

lemma new_species_Some:
  assumes "new_species (Some w) arr conf = Inr (syms, arr')"
  shows "put_at arr w conf = Inr arr'" and "syms = items arr'" and "list_all int64 w"
  using assms by (auto simp: new_species_def split: if_splits sum.splits)

lemma new_species_stores:
  "list_all int64 w \<Longrightarrow> put_at arr w conf = Inr arr1
     \<Longrightarrow> new_species (Some w) arr conf = Inr (items arr1, arr1)"
  by (simp add: new_species_def)

lemma expand_loop_length:
  "expand_loop Zof s w arr confs = Inr (out, arr') \<Longrightarrow> length out = length confs"
proof (induction confs arbitrary: arr out)
  case Nil
  then show ?case by simp
next
  case (Cons c confs)
  obtain rank e where c: "c = (rank, e)" by (cases c)
  from Cons.prems obtain arr1 out1 where "expand_loop Zof s w arr1 confs = Inr (out1, arr')"
    and "length out = Suc (length out1)"
    unfolding c by (auto split: sum.splits prod.splits)
  then show ?case using Cons.IH by simp
qed

lemma expand_loop_entry:
  assumes "expand_loop Zof s (Some w) arr confs = Inr (out, arr')"
    and "distinct (map (position (length (items arr))) w)"
    and "k < length confs"
    and "configuration_of (snd (confs ! k)) = Inr conf"
    and "length conf = length w"
  shows "length out = length confs
         \<and> fst (out ! k) = fst (confs ! k)
         \<and> lattice (snd (out ! k)) = lattice s
         \<and> length (species (snd (out ! k))) = length (items arr)
         \<and> species (snd (out ! k)) = map (atom_of Zof) (map symbol (species (snd (out ! k))))
         \<and> (\<forall>j. (\<forall>i\<in>set w. position (length (items arr)) i \<noteq> j)
                \<longrightarrow> map symbol (species (snd (out ! k))) ! j = items arr ! j)
         \<and> (\<forall>m<length w. map symbol (species (snd (out ! k))) ! position (length (items arr)) (w ! m)
                = take (width arr) (conf ! m))"
  using assms
proof (induction confs arbitrary: arr out k)
  case Nil
  then show ?case by simp
next
  case (Cons c confs)
  obtain rank e where c: "c = (rank, e)" by (cases c)
  from Cons.prems(1) obtain conf0 arr1 out1 where
    conf0: "configuration_of e = Inr conf0"
    and put: "put_at arr w conf0 = Inr arr1"
    and rest: "expand_loop Zof s (Some w) arr1 confs = Inr (out1, arr')"
    and out: "out = (rank, Structure_init Zof (lattice s) (frac_coords s) (items arr1) default_pbc) # out1"
    unfolding c by (auto split: sum.splits prod.splits dest: new_species_Some)
  have w1: "width arr1 = width arr" and l1: "length (items arr1) = length (items arr)"
    using put by (rule put_at_Inr)+
  show ?case
  proof (cases k)
    case 0
    have conf_eq: "conf0 = conf" using Cons.prems(4) conf0 0 c by simp
    have len: "length out = length (c # confs)"
      using Cons.prems(1) by (rule expand_loop_length)
    have other: "\<forall>j. (\<forall>i\<in>set w. position (length (items arr)) i \<noteq> j) \<longrightarrow> items arr1 ! j = items arr ! j"
      using put_at_other [OF put] by blast
    have hit: "\<forall>m<length w. items arr1 ! position (length (items arr)) (w ! m) = take (width arr) (conf ! m)"
      using put_at_hit [OF put Cons.prems(2)] Cons.prems(5) conf_eq by simp
    show ?thesis
      using 0 c out len other hit l1
      by (simp add: Structure_init_fields comp_def symbol_atom_of)
  next
    case (Suc k')
    have d1: "distinct (map (position (length (items arr1))) w)"
      using Cons.prems(2) l1 by simp
    have k': "k' < length confs" using Cons.prems(3) Suc by simp
    have c': "configuration_of (snd (confs ! k')) = Inr conf" using Cons.prems(4) Suc by simp
    note IH = Cons.IH [OF rest d1 k' c' Cons.prems(5)]
    have other: "items arr1 ! j = items arr ! j" if "\<forall>i\<in>set w. position (length (items arr)) i \<noteq> j" for j
      using put_at_other [OF put that] .
    have len: "length out = length (c # confs)"
      using Cons.prems(1) by (rule expand_loop_length)
    show ?thesis
      using IH Suc out l1 w1 other len by simp
  qed
qed

text \<open>
  What \<open>expand_results\<close> does where the stores cut nothing. Let the parent structure
  be built by the constructor, and let the \<open>which\<close> list \<open>w\<close> have no repeated index
  and only indices in \<open>[0, N)\<close>. If \<open>expand_results\<close> returns, then for every
  configuration with as many symbols as \<open>w\<close> has indices, none of them longer than
  the width of the parent's symbol array, the structure produced under the
  configuration's rank has \<open>N\<close> sites, agrees with the parent's species on every
  site that \<open>w\<close> does not list, and carries the \<open>m\<close>-th symbol of the configuration
  on site \<open>w[m]\<close>.
\<close>

lemma expand_results_sublattice:
  assumes "constructed Zof (doc_structure dense)"
    and "doc_which dense = Some w"
    and "distinct w"
    and "\<forall>i\<in>set w. 0 \<le> i \<and> i < int (num_atoms (doc_structure dense))"
    and "expand_results Zof dense = Inr (out, parent)"
    and "k < length (doc_configurations dense)"
    and "configuration_of (snd (doc_configurations dense ! k)) = Inr conf"
    and "length conf = length w"
    and "\<forall>x\<in>set conf. length x \<le> width (symbols (doc_structure dense))"
  shows "length out = length (doc_configurations dense)
         \<and> fst (out ! k) = fst (doc_configurations dense ! k)
         \<and> length (species (snd (out ! k))) = num_atoms (doc_structure dense)
         \<and> (\<forall>j<num_atoms (doc_structure dense). int j \<notin> set w
               \<longrightarrow> species (snd (out ! k)) ! j = species (doc_structure dense) ! j)
         \<and> (\<forall>m<length w. symbol (species (snd (out ! k)) ! nat (w ! m)) = conf ! m)"
proof -
  let ?s = "doc_structure dense"
  let ?arr = "symbols ?s"
  let ?n = "num_atoms ?s"
  let ?r = "snd (out ! k)"
  have n: "length (items ?arr) = ?n"
    using assms(1) by (rule constructed_length_items)
  obtain arr' where loop: "expand_loop Zof ?s (Some w) ?arr (doc_configurations dense) = Inr (out, arr')"
    using assms(5,2) by (auto simp: expand_results_def Let_def split: sum.splits prod.splits)
  have pos: "position ?n i = nat i" if "i \<in> set w" for i
    using assms(4) that by (auto simp: position_def)
  have "inj_on nat (set w)"
  proof (rule inj_onI)
    fix x y assume "x \<in> set w" "y \<in> set w" "nat x = nat y"
    moreover from this assms(4) have "0 \<le> x" "0 \<le> y" by auto
    ultimately show "x = y" by simp
  qed
  then have "distinct (map nat w)"
    using assms(3) by (simp add: distinct_map)
  moreover have "map (position ?n) w = map nat w"
    using pos by simp
  ultimately have "distinct (map (position ?n) w)"
    by (simp only:)
  then have d: "distinct (map (position (length (items ?arr))) w)"
    by (simp only: n)
  note E = expand_loop_entry [OF loop d assms(6,7,8), unfolded n]
  have len_r: "length (species ?r) = ?n" using E by simp
  have sp_r: "species ?r = map (atom_of Zof) (map symbol (species ?r))" using E by simp
  have frame: "species ?r ! j = species ?s ! j" if "j < ?n" and "int j \<notin> set w" for j
  proof -
    have "\<forall>i\<in>set w. position ?n i \<noteq> j"
      using pos that(2) assms(4) by auto
    then have "map symbol (species ?r) ! j = items ?arr ! j"
      using E by simp
    then have "symbol (species ?r ! j) = symbol (species ?s ! j)"
      using that(1) len_r constructed_symbols [OF assms(1)] by (simp add: num_atoms_def)
    moreover have "species ?r ! j = atom_of Zof (symbol (species ?r ! j))"
      using sp_r that(1) len_r by (metis length_map nth_map)
    ultimately show ?thesis
      using constructed_atom [OF assms(1)] that(1) by (simp add: num_atoms_def)
  qed
  have hit: "symbol (species ?r ! nat (w ! m)) = conf ! m" if "m < length w" for m
  proof -
    have wm: "w ! m \<in> set w" using that by simp
    have "nat (w ! m) < ?n" using assms(4) wm by auto
    moreover have "map symbol (species ?r) ! position ?n (w ! m) = take (width ?arr) (conf ! m)"
      using E that by simp
    moreover have "length (conf ! m) \<le> width ?arr"
      using assms(8,9) that by simp
    ultimately show ?thesis
      using pos [OF wm] len_r by simp
  qed
  show ?thesis using E frame hit by simp
qed

lemma CsCl_symbols: "symbols CsCl = \<lparr>width = 2, items = [''Cs'', ''Cl'']\<rparr>"
  by (simp add: CsCl_def Structure_init_fields np_array_def)

lemma expand_CsCl_document:
  "expand_results example_table CsCl_document =
     Inr ([(0, Structure_init example_table cubic [(0, 0, 0), (1 / 2, 1 / 2, 1 / 2)] [''H'', ''Cl''] default_pbc),
           (1, Structure_init example_table cubic [(0, 0, 0), (1 / 2, 1 / 2, 1 / 2)] [''He'', ''Cl''] default_pbc)],
          CsCl\<lparr>symbols := \<lparr>width = 2, items = [''He'', ''Cl'']\<rparr>\<rparr>)"
  by (simp add: expand_results_def CsCl_document_def configuration_of_def new_species_def
      put_at_def CsCl_symbols CsCl_fields in_bounds_def int64_def position_def store_def
      broadcast_def)

lemma CsCl_document_fields:
  "doc_structure CsCl_document = CsCl"
  "doc_configurations CsCl_document = [(0, Symbols [''H'']), (1, Document (Some [''He'']))]"
  "doc_which CsCl_document = Some [0]"
  by (simp_all add: CsCl_document_def)

text \<open>
  The second configuration of the example document puts helium on site 0 and leaves
  chlorine on site 1.
\<close>

lemma expand_results_sublattice_example:
  "fst (fst (projr (expand_results example_table CsCl_document)) ! 1) = 1
   \<and> species (snd (fst (projr (expand_results example_table CsCl_document)) ! 1)) ! 1
       = \<lparr>symbol = ''Cl'', Z = 17\<rparr>
   \<and> symbol (species (snd (fst (projr (expand_results example_table CsCl_document)) ! 1)) ! 0) = ''He''"
proof -
  have "constructed example_table (doc_structure CsCl_document)"
    using constructed_examples(1) by (simp add: CsCl_document_fields)
  from expand_results_sublattice [OF this, of "[0]" _ _ 1 "[''He'']", OF _ _ _ expand_CsCl_document]
  show ?thesis
    by (simp add: CsCl_document_fields CsCl_fields CsCl_symbols CsCl_species configuration_of_def
        expand_CsCl_document less_2_cases_iff)
qed

text \<open>
  \<open>expand_results\<close> takes the index list unchecked: with \<open>which = [0, 0]\<close> site 0
  carries the second symbol, and with \<open>which = [-1]\<close> the last site changes.
\<close>

lemma expand_results_unchecked_indices:
  "map_sum id (\<lambda>res. map (\<lambda>e. map symbol (species (snd e))) (fst res))
     (expand_results example_table
        \<lparr>doc_structure = CsCl, doc_configurations = [(0, Symbols [''H'', ''He''])],
         doc_which = Some [0, 0]\<rparr>)
     = Inr [[''He'', ''Cl'']]
   \<and> map_sum id (\<lambda>res. map (\<lambda>e. map symbol (species (snd e))) (fst res))
     (expand_results example_table
        \<lparr>doc_structure = CsCl, doc_configurations = [(0, Symbols [''H''])],
         doc_which = Some [- 1]\<rparr>)
     = Inr [[''Cs'', ''H'']]
   \<and> map symbol (species CsCl) = [''Cs'', ''Cl'']"
  by (simp add: expand_results_def configuration_of_def new_species_def
      put_at_def CsCl_symbols CsCl_species in_bounds_def int64_def position_def store_def
      broadcast_def Structure_init_fields comp_def symbol_atom_of)

text \<open>
  The loop returns when every index of \<open>which\<close> is in bounds and in the int64 range
  and every configuration can be read and has as many symbols as \<open>which\<close> has
  indices, or one symbol.
\<close>

lemma expand_loop_returns:
  assumes "list_all (in_bounds (length (items arr))) w"
    and "list_all int64 w"
    and "\<forall>e\<in>set confs. \<exists>conf. configuration_of (snd e) = Inr conf
           \<and> (length conf = length w \<or> length conf = 1)"
  shows "\<exists>out arr'. expand_loop Zof s (Some w) arr confs = Inr (out, arr')"
  using assms
proof (induction confs arbitrary: arr)
  case Nil
  then show ?case by simp
next
  case (Cons c confs)
  obtain rank e where c: "c = (rank, e)" by (cases c)
  from Cons.prems(3) obtain conf where conf: "configuration_of e = Inr conf"
    and len: "length conf = length w \<or> length conf = 1"
    unfolding c by auto
  obtain arr1 where put: "put_at arr w conf = Inr arr1"
    using Cons.prems(1) len by (auto simp: put_at_def Let_def)
  have "list_all (in_bounds (length (items arr1))) w"
    using Cons.prems(1) put_at_Inr(2) [OF put] by simp
  moreover note Cons.prems(2)
  moreover have "\<forall>e\<in>set confs. \<exists>conf. configuration_of (snd e) = Inr conf
           \<and> (length conf = length w \<or> length conf = 1)"
    using Cons.prems(3) by simp
  ultimately have "\<exists>out arr'. expand_loop Zof s (Some w) arr1 confs = Inr (out, arr')"
    by (rule Cons.IH)
  then obtain out arr' where "expand_loop Zof s (Some w) arr1 confs = Inr (out, arr')"
    by blast
  then show ?case
    using conf new_species_stores [OF Cons.prems(2) put] by (simp add: c)
qed

text \<open>
  Claim C1 fails on the code. The document is well formed: the parent is built by the
  constructor, \<open>which = [0, 1]\<close> lists two different sites of its three, and the
  configuration has two symbols. The parent's symbol array of K, K, F has width 1, so
  the store \<open>species[mask] = conf\<close> cuts \<open>Na\<close> to \<open>N\<close>: the structure produced
  carries nitrogen on site 0, not the sodium of the configuration. (The sites that
  \<open>which\<close> does not list keep the parent's species, here fluorine on site 2.)
\<close>

theorem expand_results_truncates:
  "map symbol (species (doc_structure K2F_document)) = [''K'', ''K'', ''F'']
   \<and> constructed example_table (doc_structure K2F_document)
   \<and> doc_which K2F_document = Some [0, 1]
   \<and> doc_configurations K2F_document = [(0, Symbols [''Na'', ''K''])]
   \<and> map_sum id (\<lambda>res. map (\<lambda>e. (fst e, map symbol (species (snd e)))) (fst res))
        (expand_results example_table K2F_document)
       = Inr [(0, [''N'', ''K'', ''F''])]"
proof -
  have "map_sum id (\<lambda>res. map (\<lambda>e. (fst e, map symbol (species (snd e)))) (fst res))
        (expand_results example_table K2F_document)
       = Inr [(0, [''N'', ''K'', ''F''])]"
    by (simp add: expand_results_def K2F_document_def configuration_of_def new_species_def
        put_at_def K2F_def np_array_def in_bounds_def int64_def position_def store_def
        broadcast_def Structure_init_fields comp_def symbol_atom_of)
  moreover have "map symbol (species (doc_structure K2F_document)) = [''K'', ''K'', ''F'']"
    by (simp add: K2F_document_def K2F_def Structure_init_fields comp_def symbol_atom_of)
  moreover have "constructed example_table (doc_structure K2F_document)"
    using constructed_more_examples(1) by (simp add: K2F_document_def)
  ultimately show ?thesis by (simp add: K2F_document_def)
qed

text \<open>
  The stores go to the parent's own symbol array: after the call the parent's symbols
  are those of the last configuration.
\<close>

lemma expand_results_changes_parent:
  "map_sum id (\<lambda>res. items (symbols (snd res))) (expand_results example_table CsCl_document)
     = Inr [''He'', ''Cl'']
   \<and> items (symbols (doc_structure CsCl_document)) = [''Cs'', ''Cl'']"
  by (simp add: expand_CsCl_document CsCl_document_fields CsCl_symbols)

section \<open>The parameter decorator\<close>

text \<open>
  Claim C2. For a reader declared through \<open>parameter\<close> with name \<open>name\<close> and a
  settings mapping that contains the reader's key (the name itself when no key is
  given): a BadSettings error raised by the body reaches the caller with its
  \<open>parameter\<close> attribute set to \<open>name\<close>, and a value returned by the body is
  returned unchanged.
\<close>

theorem parameter_forwards:
  assumes "get_key name key = KeyStr k" and "settings k \<noteq> None"
  shows "(f settings = Inl (BadSettings msg p)
            \<longrightarrow> parameter name dflt required key f settings = Inl (BadSettings msg (Some name)))
         \<and> (f settings = Inr v
            \<longrightarrow> parameter name dflt required key f settings = Inr (Some v))"
  using assms by (auto simp: parameter_def not_in_settings_def)

text \<open>
  A negative \<open>atol\<close> is refused with parameter \<open>atol\<close>; the value 3/2 is returned.
\<close>

theorem parameter_forwards_witness:
  "parameter ''atol'' (DefaultValue (1 / 1000)) (RequiredBool True) KeyNone negative_atol
     [''atol'' \<mapsto> - 1] = Inl (BadSettings ''negative'' (Some ''atol''))
   \<and> parameter ''atol'' (DefaultValue (1 / 1000)) (RequiredBool True) KeyNone negative_atol
     [''atol'' \<mapsto> 3 / 2] = Inr (Some (3 / 2))"
  using parameter_forwards [of "''atol''" KeyNone "''atol''" "[''atol'' \<mapsto> - 1]" negative_atol
      "''negative''" None "DefaultValue (1 / 1000)" "RequiredBool True" 0]
    parameter_forwards [of "''atol''" KeyNone "''atol''" "[''atol'' \<mapsto> 3 / 2]" negative_atol
      "''negative''" None "DefaultValue (1 / 1000)" "RequiredBool True" "3 / 2"]
  by (simp add: get_key_def negative_atol_def)

section \<open>construct_settings\<close>

lemma apply_overloads_frame:
  assumes "a < length heap" and "a \<noteq> b"
  shows "snd (apply_overloads heap b overloads) ! a = heap ! a
         \<and> length (snd (apply_overloads heap b overloads)) = length heap"
  using assms by (induction heap b overloads rule: apply_overloads.induct) simp_all

lemma apply_overloads_error:
  assumes "b < length heap"
  shows "(\<exists>k. fst (apply_overloads heap b overloads) = Some (KeyError k))
           \<longleftrightarrow> (\<exists>k\<in>set (map fst overloads). (heap ! b) k = None)"
    and "fst (apply_overloads heap b overloads) = None
           \<or> (\<exists>k. fst (apply_overloads heap b overloads) = Some (KeyError k))"
  using assms
proof (induction heap b overloads rule: apply_overloads.induct)
  case (1 heap b)
  { case 1 show ?case by simp }
  { case 2 show ?case by simp }
next
  case (2 heap b overload v rest)
  { case 1
    show ?case
    proof (cases "(heap ! b) overload = None")
      case True
      then show ?thesis by auto
    next
      case False
      have "\<And>k. ((heap ! b)(overload \<mapsto> v)) k = None \<longleftrightarrow> (heap ! b) k = None"
        using False by auto
      then show ?thesis
        using False "2.IH"(1) [OF False] 1 by auto
    qed }
  { case 2
    show ?case
      using "2.IH"(2) 2 by (cases "(heap ! b) overload = None") auto }
qed

lemma evaluate_all_no_KeyError:
  assumes "\<forall>v k. py_dict v \<noteq> Inl (KeyError k)" and "\<forall>v k. py_list v \<noteq> Inl (KeyError k)"
  shows "evaluate_all py_dict py_list m args \<noteq> Inl (KeyError k)"
proof (induction args)
  case Nil
  then show ?case by simp
next
  case (Cons arg args)
  have "evaluate py_dict py_list m arg \<noteq> Inl (KeyError k)"
    using assms by (cases arg) (auto simp: evaluate_def getattr_def split: option.splits)
  then show ?case
    using Cons by (auto split: sum.splits)
qed

text \<open>
  Claim C9. \<open>construct_settings\<close> raises KeyError exactly when some overload key is
  not a key of the caller's settings, and whether it raises or returns, the caller's
  settings object holds the entries it held before: the overloads are written to the
  copy. The collaborators that are not among the sources (\<open>process_settings\<close>,
  and \<open>dict\<close> and \<open>list\<close> on the opaque values) are taken not to raise KeyError
  themselves.
\<close>

theorem construct_settings_KeyError:
  assumes "a < length heap"
    and "\<not> process \<or> (\<forall>m k. process_settings m \<noteq> Inl (KeyError k))"
    and "\<forall>v k. py_dict v \<noteq> Inl (KeyError k)"
    and "\<forall>v k. py_list v \<noteq> Inl (KeyError k)"
  shows "((\<exists>k. fst (construct_settings process_settings py_dict py_list heap a process overloads)
                 = Inl (KeyError k))
            \<longleftrightarrow> (\<exists>k\<in>set (map fst overloads). (heap ! a) k = None))
         \<and> snd (construct_settings process_settings py_dict py_list heap a process overloads) ! a
             = heap ! a"
proof -
  let ?b = "length heap"
  let ?heap1 = "heap @ [heap ! a]"
  let ?ao = "apply_overloads ?heap1 ?b overloads"
  have b: "?b < length ?heap1" by simp
  have a1: "a < length ?heap1" using assms(1) by simp
  have ab: "a \<noteq> ?b" using assms(1) by simp
  have frame: "snd ?ao ! a = heap ! a" and len: "length (snd ?ao) = Suc ?b"
    using apply_overloads_frame [OF a1 ab, of overloads] assms(1) by (simp_all add: nth_append)
  have err: "(\<exists>k. fst ?ao = Some (KeyError k)) \<longleftrightarrow> (\<exists>k\<in>set (map fst overloads). (heap ! a) k = None)"
    using apply_overloads_error(1) [OF b, of overloads] by simp
  have shape: "fst ?ao = None \<or> (\<exists>k. fst ?ao = Some (KeyError k))"
    using apply_overloads_error(2) [OF b, of overloads] .
  obtain e heap2 where ao: "?ao = (e, heap2)" by (cases ?ao)
  have upd: "heap2[?b := m] ! a = heap ! a" for m
    using frame ab ao by simp
  have eval: "evaluate_all py_dict py_list m iteration_arguments \<noteq> Inl (KeyError k)" for m k
    using assms(3,4) by (rule evaluate_all_no_KeyError)
  show ?thesis
  proof (cases e)
    case None
    have no: "\<not> (\<exists>k\<in>set (map fst overloads). (heap ! a) k = None)"
      using err ao None by simp
    have "fst (construct_settings process_settings py_dict py_list heap a process overloads) \<noteq> Inl (KeyError k)" for k
      using ao None assms(2) eval
      by (auto simp: construct_settings_def Let_def split: sum.splits)
    moreover have "snd (construct_settings process_settings py_dict py_list heap a process overloads) ! a = heap ! a"
      using ao None upd frame
      by (auto simp: construct_settings_def Let_def split: sum.splits)
    ultimately show ?thesis using no by simp
  next
    case (Some x)
    then obtain k where k: "e = Some (KeyError k)" using shape ao by auto
    have "\<exists>k\<in>set (map fst overloads). (heap ! a) k = None"
      using err ao k by simp
    moreover have "construct_settings process_settings py_dict py_list heap a process overloads
                     = (Inl (KeyError k), heap2)"
      using ao k by (simp add: construct_settings_def Let_def)
    ultimately show ?thesis using frame ao by simp
  qed
qed

text \<open>
  The overload \<open>seed\<close> is not a key of the settings and raises; the overload
  \<open>iterations\<close> reaches the result and leaves the caller's settings as they were.
\<close>

theorem construct_settings_KeyError_witness:
  "fst (construct_settings Inr Inr Inr [full_settings] 0 False [(''iterations'', 99), (''seed'', 42)])
     = Inl (KeyError ''seed'')
   \<and> snd (construct_settings Inr Inr Inr [full_settings] 0 False [(''iterations'', 99), (''seed'', 42)]) ! 0
     = full_settings
   \<and> fst (construct_settings Inr Inr Inr [full_settings] 0 True [(''iterations'', 99)])
     = Inr (IterationSettings [0, 1, 2, 3, 99, 5, 6, 7, 8, 9, 10])
   \<and> snd (construct_settings Inr Inr Inr [full_settings] 0 True [(''iterations'', 99)]) ! 0
     = full_settings"
proof -
  have ne: "\<forall>v k. (Inr v :: py_error + nat) \<noteq> Inl (KeyError k)"
    and ne': "\<not> False \<or> (\<forall>m k. (Inr m :: py_error + nat settings) \<noteq> Inl (KeyError k))"
    and ne'': "\<not> True \<or> (\<forall>m k. (Inr m :: py_error + nat settings) \<noteq> Inl (KeyError k))"
    by simp_all
  have l: "0 < length [full_settings]" by simp
  note A = construct_settings_KeyError [OF l ne' ne ne, of "[(''iterations'', 99), (''seed'', 42)]"]
  note B = construct_settings_KeyError [OF l ne'' ne ne, of "[(''iterations'', 99)]"]
  have 1: "fst (construct_settings Inr Inr Inr [full_settings] 0 False [(''iterations'', 99), (''seed'', 42)])
     = Inl (KeyError ''seed'')"
    by (simp add: construct_settings_def full_settings_def)
  have 2: "fst (construct_settings Inr Inr Inr [full_settings] 0 True [(''iterations'', 99)])
     = Inr (IterationSettings [0, 1, 2, 3, 99, 5, 6, 7, 8, 9, 10])"
    by (simp add: construct_settings_def full_settings_def iteration_arguments_def evaluate_def
        getattr_def)
  show ?thesis using A B 1 2 by simp
qed

section \<open>The readers modelled from the spec\<close>

lemma with_leading_zero_hd: "with_leading_zero ds = 0 # tl (with_leading_zero ds)"
  by (cases ds) (simp_all add: with_leading_zero_def)

lemma with_leading_zero_set: "set ds \<subseteq> set (with_leading_zero ds)"
  by (cases ds) (auto simp: with_leading_zero_def)

lemma increasing_nonnegative:
  assumes "sorted_wrt (<) (with_leading_zero ds)" and "d \<in> set ds"
  shows "0 \<le> d"
proof -
  have "d \<in> set (with_leading_zero ds)" using assms(2) with_leading_zero_set by auto
  then have "d = 0 \<or> d \<in> set (tl (with_leading_zero ds))"
    by (metis with_leading_zero_hd set_ConsD)
  moreover have "sorted_wrt (<) (0 # tl (with_leading_zero ds))"
    using assms(1) with_leading_zero_hd [of ds] by simp
  ultimately show ?thesis by auto
qed

text \<open>
  Claim C3, amended. For a supplied sequence, \<open>read_shell_distances\<close> raises
  BadSettings with parameter \<open>shell_distances\<close> when the sequence is empty, has an
  entry that is negative or not real, is not strictly increasing once the leading zero
  is in place, or has fewer than two entries once the leading zero is in place.
  Otherwise it returns the sequence as it is when its first entry is 0, and with one 0
  in front when it is not.
\<close>

theorem read_shell_distances_checked:
  assumes "settings ''shell_distances'' = Some (Seq xs)"
  shows "if xs = [] \<or> \<not> list_all is_num xs \<or> (\<exists>x\<in>set xs. num x < 0)
            \<or> \<not> sorted_wrt (<) (with_leading_zero (map num xs))
            \<or> length (with_leading_zero (map num xs)) < 2
         then bad_settings_for ''shell_distances'' (read_shell_distances dflt settings)
         else read_shell_distances dflt settings
                = Inr (Some (if num (hd xs) = 0 then map num xs else 0 # map num xs))"
proof -
  let ?ds = "with_leading_zero (map num xs)"
  have neg: "\<not> sorted_wrt (<) ?ds" if "\<exists>x\<in>set xs. num x < 0"
  proof
    assume "sorted_wrt (<) ?ds"
    then have "\<forall>d\<in>set (map num xs). 0 \<le> d" using increasing_nonnegative by blast
    then show False using that by auto
  qed
  have empty: "length ?ds < 2" if "xs = []"
    using that by (simp add: with_leading_zero_def)
  have norm: "?ds = (if num (hd xs) = 0 then map num xs else 0 # map num xs)" if "xs \<noteq> []"
    using that by (cases xs) (simp_all add: with_leading_zero_def)
  show ?thesis
    using assms neg empty norm
    by (auto simp: read_shell_distances_def parameter_def get_key_def not_in_settings_def
        shell_distances_reader_def bad_settings_for_def Let_def)
qed

text \<open>
  The inputs of scenario S5 and of the test.
\<close>

theorem read_shell_distances_checked_witness:
  "bad_settings_for ''shell_distances''
     (read_shell_distances (\<lambda>s. Inr []) [''shell_distances'' \<mapsto> Seq [Num 0, Num (- 1), Num 2]])
   \<and> read_shell_distances (\<lambda>s. Inr []) [''shell_distances'' \<mapsto> Seq [Num 1, Num 2, Num 4, Num 5]]
       = Inr (Some [0, 1, 2, 4, 5])
   \<and> read_shell_distances (\<lambda>s. Inr []) [''shell_distances'' \<mapsto> Seq [Num 0, Num 1, Num 2, Num 4, Num 5]]
       = Inr (Some [0, 1, 2, 4, 5])"
  using read_shell_distances_checked [of "[''shell_distances'' \<mapsto> Seq [Num 0, Num (- 1), Num 2]]"
      "[Num 0, Num (- 1), Num 2]" "\<lambda>s. Inr []"]
    read_shell_distances_checked [of "[''shell_distances'' \<mapsto> Seq [Num 1, Num 2, Num 4, Num 5]]"
      "[Num 1, Num 2, Num 4, Num 5]" "\<lambda>s. Inr []"]
    read_shell_distances_checked [of "[''shell_distances'' \<mapsto> Seq [Num 0, Num 1, Num 2, Num 4, Num 5]]"
      "[Num 0, Num 1, Num 2, Num 4, Num 5]" "\<lambda>s. Inr []"]
  by (simp add: is_num_def num_def with_leading_zero_def)

text \<open>
  Claim C3 as stated fails at the sequence \<open>[0]\<close>: it is not empty, has no negative
  entry and is strictly increasing, yet it has no shell besides the leading zero and
  is refused.
\<close>

theorem read_shell_distances_lone_zero:
  "read_shell_distances (\<lambda>s. Inr []) [''shell_distances'' \<mapsto> Seq [Num 0]]
     = Inl (BadSettings ''shell distances must increase strictly'' (Some ''shell_distances''))
   \<and> [Num 0] \<noteq> []
   \<and> list_all is_num [Num 0]
   \<and> \<not> num (Num 0) < 0
   \<and> sorted_wrt (<) (with_leading_zero (map num [Num 0]))"
  by (simp add: read_shell_distances_def parameter_def get_key_def not_in_settings_def
      shell_distances_reader_def is_num_def num_def with_leading_zero_def)





end
